theory Spec2Isabelle
  imports Main "HOL-Library.Word"
begin

section \<open>Errors\<close>

text \<open>
  A Go \<open>error\<close> is an interface value; \<open>nil\<close> is the absence of an error. The model
  keeps the dynamic type of the value as the constructor:
  \<^item> \<open>LibError\<close>: an error handed back by sarama, crypto/tls or io/ioutil, passed on as it is;
  \<^item> \<open>Errorf\<close>: the result of \<open>fmt.Errorf\<close> or \<open>errors.New\<close>, with the formatted message;
  \<^item> \<open>TopicMissingError\<close>: the struct of that name of the package, with its \<open>msg\<close>;
  \<^item> \<open>NilDereference\<close>: the run-time panic of dereferencing a nil pointer.
  A function returning \<open>error\<close> returns \<open>error option\<close>, \<open>None\<close> for \<open>nil\<close>.
\<close>

datatype error =
    LibError string
  | Errorf string
  | TopicMissingError string
  | NilDereference

section \<open>ACL vocabulary\<close>

text \<open>
  Modelled from the spec: the enumeration constants of the sarama package
  (\<open>AclOperation\<close>, \<open>AclPermissionType\<close>, \<open>AclResourceType\<close>, \<open>AclResourcePatternType\<close>),
  whose declaration is not among the sources. Each type is a Go \<open>int\<close> and its members are
  numbered from 0 in the order the spec lists them (for the pattern type after an
  \<open>AclPatternUnknown\<close> member that no string denotes).
\<close>

type_synonym AclOperation = int
type_synonym AclPermissionType = int
type_synonym AclResourceType = int
type_synonym AclResourcePatternType = int

definition AclOperationUnknown :: AclOperation where "AclOperationUnknown = 0"
definition AclOperationAny :: AclOperation where "AclOperationAny = 1"
definition AclOperationAll :: AclOperation where "AclOperationAll = 2"
definition AclOperationRead :: AclOperation where "AclOperationRead = 3"
definition AclOperationWrite :: AclOperation where "AclOperationWrite = 4"
definition AclOperationCreate :: AclOperation where "AclOperationCreate = 5"
definition AclOperationDelete :: AclOperation where "AclOperationDelete = 6"
definition AclOperationAlter :: AclOperation where "AclOperationAlter = 7"
definition AclOperationDescribe :: AclOperation where "AclOperationDescribe = 8"
definition AclOperationClusterAction :: AclOperation where "AclOperationClusterAction = 9"
definition AclOperationDescribeConfigs :: AclOperation where "AclOperationDescribeConfigs = 10"
definition AclOperationAlterConfigs :: AclOperation where "AclOperationAlterConfigs = 11"
definition AclOperationIdempotentWrite :: AclOperation where "AclOperationIdempotentWrite = 12"

definition AclPermissionUnknown :: AclPermissionType where "AclPermissionUnknown = 0"
definition AclPermissionAny :: AclPermissionType where "AclPermissionAny = 1"
definition AclPermissionDeny :: AclPermissionType where "AclPermissionDeny = 2"
definition AclPermissionAllow :: AclPermissionType where "AclPermissionAllow = 3"

definition AclResourceUnknown :: AclResourceType where "AclResourceUnknown = 0"
definition AclResourceAny :: AclResourceType where "AclResourceAny = 1"
definition AclResourceTopic :: AclResourceType where "AclResourceTopic = 2"
definition AclResourceGroup :: AclResourceType where "AclResourceGroup = 3"
definition AclResourceCluster :: AclResourceType where "AclResourceCluster = 4"
definition AclResourceTransactionalID :: AclResourceType where "AclResourceTransactionalID = 5"

definition AclPatternUnknown :: AclResourcePatternType where "AclPatternUnknown = 0"
definition AclPatternAny :: AclResourcePatternType where "AclPatternAny = 1"
definition AclPatternMatch :: AclResourcePatternType where "AclPatternMatch = 2"
definition AclPatternLiteral :: AclResourcePatternType where "AclPatternLiteral = 3"
definition AclPatternPrefixed :: AclResourcePatternType where "AclPatternPrefixed = 4"

text \<open>\<open>const unknownConversion = -1\<close>: the value every mapping returns for a string it does not know.\<close>

definition unknownConversion :: int where
  "unknownConversion = - 1"

text \<open>The four \<open>switch\<close> statements, one branch per \<open>case\<close> in the order of the source.\<close>

definition stringToACLPrefix :: "string \<Rightarrow> AclResourcePatternType" where
  "stringToACLPrefix s =
     (if s = ''any'' then AclPatternAny
      else if s = ''match'' then AclPatternMatch
      else if s = ''literal'' then AclPatternLiteral
      else if s = ''prefixed'' then AclPatternPrefixed
      else unknownConversion)"

definition stringToACLResouce :: "string \<Rightarrow> AclResourceType" where
  "stringToACLResouce in' =
     (if in' = ''Unknown'' then AclResourceUnknown
      else if in' = ''Any'' then AclResourceAny
      else if in' = ''Topic'' then AclResourceTopic
      else if in' = ''Group'' then AclResourceGroup
      else if in' = ''Cluster'' then AclResourceCluster
      else if in' = ''TransactionalID'' then AclResourceTransactionalID
      else unknownConversion)"

definition stringToOperation :: "string \<Rightarrow> AclOperation" where
  "stringToOperation in' =
     (if in' = ''Unknown'' then AclOperationUnknown
      else if in' = ''Any'' then AclOperationAny
      else if in' = ''All'' then AclOperationAll
      else if in' = ''Read'' then AclOperationRead
      else if in' = ''Write'' then AclOperationWrite
      else if in' = ''Create'' then AclOperationCreate
      else if in' = ''Delete'' then AclOperationDelete
      else if in' = ''Alter'' then AclOperationAlter
      else if in' = ''Describe'' then AclOperationDescribe
      else if in' = ''ClusterAction'' then AclOperationClusterAction
      else if in' = ''DescribeConfigs'' then AclOperationDescribeConfigs
      else if in' = ''AlterConfigs'' then AclOperationAlterConfigs
      else if in' = ''IdempotentWrite'' then AclOperationIdempotentWrite
      else unknownConversion)"

definition stringToAclPermissionType :: "string \<Rightarrow> AclPermissionType" where
  "stringToAclPermissionType in' =
     (if in' = ''Unknown'' then AclPermissionUnknown
      else if in' = ''Any'' then AclPermissionAny
      else if in' = ''Deny'' then AclPermissionDeny
      else if in' = ''Allow'' then AclPermissionAllow
      else unknownConversion)"

text \<open>
  The vocabulary of each mapping (its \<open>case\<close> labels) and the enumeration values the
  labels stand for, position by position.
\<close>

definition operation_vocabulary :: "string list" where
  "operation_vocabulary =
     [''Unknown'', ''Any'', ''All'', ''Read'', ''Write'', ''Create'', ''Delete'', ''Alter'',
      ''Describe'', ''ClusterAction'', ''DescribeConfigs'', ''AlterConfigs'', ''IdempotentWrite'']"

definition operation_values :: "AclOperation list" where
  "operation_values =
     [AclOperationUnknown, AclOperationAny, AclOperationAll, AclOperationRead,
      AclOperationWrite, AclOperationCreate, AclOperationDelete, AclOperationAlter,
      AclOperationDescribe, AclOperationClusterAction, AclOperationDescribeConfigs,
      AclOperationAlterConfigs, AclOperationIdempotentWrite]"

definition permission_vocabulary :: "string list" where
  "permission_vocabulary = [''Unknown'', ''Any'', ''Deny'', ''Allow'']"

definition permission_values :: "AclPermissionType list" where
  "permission_values =
     [AclPermissionUnknown, AclPermissionAny, AclPermissionDeny, AclPermissionAllow]"

definition resource_vocabulary :: "string list" where
  "resource_vocabulary =
     [''Unknown'', ''Any'', ''Topic'', ''Group'', ''Cluster'', ''TransactionalID'']"

definition resource_values :: "AclResourceType list" where
  "resource_values =
     [AclResourceUnknown, AclResourceAny, AclResourceTopic, AclResourceGroup,
      AclResourceCluster, AclResourceTransactionalID]"

definition pattern_vocabulary :: "string list" where
  "pattern_vocabulary = [''any'', ''match'', ''literal'', ''prefixed'']"

definition pattern_values :: "AclResourcePatternType list" where
  "pattern_values = [AclPatternAny, AclPatternMatch, AclPatternLiteral, AclPatternPrefixed]"

text \<open>
  The canonical string of an enumeration value under a mapping: the first string of the
  vocabulary that the mapping sends to it.
\<close>

definition canonical :: "(string \<Rightarrow> int) \<Rightarrow> string list \<Rightarrow> int \<Rightarrow> string option" where
  "canonical f vocabulary v = find (\<lambda>s. f s = v) vocabulary"

text \<open>
  What it means for a mapping \<open>f\<close> to translate a vocabulary into a list of enumeration
  values: the listed strings map to the values position by position, the values are
  pairwise distinct and none of them is the sentinel, every string outside the vocabulary
  maps to the sentinel, and both round trips through the canonical string are the identity.
\<close>

definition translates :: "(string \<Rightarrow> int) \<Rightarrow> string list \<Rightarrow> int list \<Rightarrow> bool" where
  "translates f vocabulary values \<longleftrightarrow>
     map f vocabulary = values \<and> distinct values \<and> unknownConversion \<notin> set values \<and>
     (\<forall>s. s \<notin> set vocabulary \<longrightarrow> f s = unknownConversion) \<and>
     (\<forall>s \<in> set vocabulary. canonical f vocabulary (f s) = Some s) \<and>
     (\<forall>v \<in> set values. \<exists>s \<in> set vocabulary. canonical f vocabulary v = Some s \<and> f s = v)"

section \<open>Default configuration values\<close>

text \<open>
  Modelled from the spec: sarama's \<open>ConfigSource\<close> enumeration, whose declaration is not
  among the sources; the spec names the sources "default" and "static broker config" and
  calls the others explicit.
\<close>

datatype ConfigSource =
    SourceUnknown
  | SourceTopic
  | SourceDynamicBroker
  | SourceDynamicDefaultBroker
  | SourceStaticBroker
  | SourceDefault

record ConfigEntry =
  ConfigEntry_Name :: string
  ConfigEntry_Value :: string
  ConfigEntry_ReadOnly :: bool
  ConfigEntry_Default :: bool
  ConfigEntry_Source :: ConfigSource
  ConfigEntry_Sensitive :: bool

text \<open>\<open>version\<close> is a Go \<open>int\<close>; the function only compares it with 0.\<close>

definition isDefault :: "ConfigEntry \<Rightarrow> int \<Rightarrow> bool" where
  "isDefault tc version =
     (if version = 0 then ConfigEntry_Default tc
      else ConfigEntry_Source tc = SourceDefault \<or> ConfigEntry_Source tc = SourceStaticBroker)"

section \<open>Connection configuration\<close>

text \<open>
  Modelled from the spec: the two protocol versions the package names, \<open>sarama.V1_0_0_0\<close>
  and \<open>sarama.V2_0_0_0\<close>, whose declaration is not among the sources; a \<open>KafkaVersion\<close>
  is four numbers.
\<close>

datatype KafkaVersion = KafkaVersion nat nat nat nat

definition V1_0_0_0 :: KafkaVersion where "V1_0_0_0 = KafkaVersion 1 0 0 0"
definition V2_0_0_0 :: KafkaVersion where "V2_0_0_0 = KafkaVersion 2 0 0 0"

text \<open>
  Certificates are opaque to the package: an \<open>x509.Certificate\<close> and a \<open>tls.Certificate\<close>
  are their encoded bytes, an \<open>x509.CertPool\<close> is the certificates added to it, in order.
\<close>

datatype Certificate = Certificate string
datatype tls_Certificate = tls_Certificate string string
type_synonym CertPool = "Certificate list"

definition NewCertPool :: CertPool where
  "NewCertPool = []"

definition AddCert :: "CertPool \<Rightarrow> Certificate \<Rightarrow> CertPool" where
  "AddCert pool cert = pool @ [cert]"

text \<open>The fields of \<open>tls.Config\<close> and \<open>sarama.Config\<close> that the package writes.\<close>

record tls_Config =
  Certificates :: "tls_Certificate list"
  RootCAs :: "CertPool option"
  InsecureSkipVerify :: bool

record sarama_Config =
  Config_Version :: KafkaVersion
  Config_ClientID :: string
  Net_SASL_Enable :: bool
  Net_SASL_User :: string
  Net_SASL_Password :: string
  Net_TLS_Enable :: bool
  Net_TLS_Config :: "tls_Config option"

text \<open>
  \<open>type Config struct\<close>. A pointer field is an \<open>option\<close>, \<open>None\<close> for \<open>nil\<close>;
  \<open>Timeout\<close> is a Go \<open>int\<close> (64 bits).
\<close>

record Config =
  BootstrapServers :: "string list option"
  Timeout :: "64 word"
  CACert :: "Certificate option"
  CACertFile :: string
  ClientCert :: "tls_Certificate option"
  ClientCertFile :: string
  ClientCertKey :: string
  TLSEnabled :: bool
  SkipTLSVerify :: bool
  SASLUsername :: string
  SASLPassword :: string

section \<open>Requests, responses and handles of the protocol library\<close>

text \<open>
  Modelled from the spec: \<open>sarama.KError\<close>, a 16-bit code, and its "no error" value,
  which the spec calls the zero code.
\<close>

type_synonym KError = "16 word"

definition ErrNoError :: KError where
  "ErrNoError = 0"

text \<open>
  \<open>type Topic struct\<close> is declared outside the sources; these are the fields the client
  reads and writes, with the types of the assignments in \<open>ReadTopic\<close>. A Go map is a HOL map.
\<close>

record Topic =
  Topic_Name :: string
  Topic_Partitions :: "32 word"
  Topic_ReplicationFactor :: "16 word"
  Topic_Config :: "string \<rightharpoonup> string"

text \<open>
  The requests as the client fills them in, and of each response the fields the client
  reads. A response map that the client ranges over is the list of its entries in the
  order the \<open>range\<close> statement visits them, which Go leaves open.
\<close>

record TopicDetail =
  NumPartitions :: "32 word"
  ReplicationFactor :: "16 word"
  ConfigEntries :: "string \<rightharpoonup> string"

record CreateTopicsRequest =
  CreateTopicsRequest_TopicDetails :: "(string \<times> TopicDetail) list"
  CreateTopicsRequest_Timeout :: "64 word"

record TopicError =
  TopicError_Err :: KError

record CreateTopicsResponse =
  TopicErrors :: "(string \<times> TopicError) list"

record DeleteTopicsRequest =
  DeleteTopicsRequest_Topics :: "string list"
  DeleteTopicsRequest_Timeout :: "64 word"

record DeleteTopicsResponse =
  TopicErrorCodes :: "(string \<times> KError) list"

record AlterConfigsResource =
  AlterConfigsResource_Name :: string
  AlterConfigsResource_ConfigEntries :: "string \<rightharpoonup> string"

record AlterConfigsRequest =
  AlterConfigsRequest_Resources :: "AlterConfigsResource list"
  AlterConfigsRequest_ValidateOnly :: bool

record AlterConfigsResourceResponse =
  ErrorCode :: "16 word"
  ErrorMsg :: string

record AlterConfigsResponse =
  AlterConfigsResponse_Resources :: "AlterConfigsResourceResponse list"

record TopicPartition =
  TopicPartition_Count :: "32 word"

record CreatePartitionsRequest =
  CreatePartitionsRequest_TopicPartitions :: "(string \<times> TopicPartition) list"
  CreatePartitionsRequest_Timeout :: "64 word"
  CreatePartitionsRequest_ValidateOnly :: bool

record TopicPartitionError =
  TopicPartitionError_Err :: KError

record CreatePartitionsResponse =
  TopicPartitionErrors :: "(string \<times> TopicPartitionError) list"

datatype ConfigResourceType = TopicResource

record ConfigResource =
  ConfigResource_Type :: ConfigResourceType
  ConfigResource_Name :: string

record DescribeConfigsRequest =
  DescribeConfigsRequest_Version :: "16 word"
  DescribeConfigsRequest_Resources :: "ConfigResource list"

record ResourceResponse =
  Configs :: "ConfigEntry list"

record DescribeConfigsResponse =
  DescribeConfigsResponse_Version :: "16 word"
  DescribeConfigsResponse_Resources :: "ResourceResponse list"

record sarama_Acl =
  Acl_Principal :: string
  Acl_Host :: string
  Acl_Operation :: AclOperation
  Acl_PermissionType :: AclPermissionType

record sarama_Resource =
  ResourceType :: AclResourceType
  ResourceName :: string
  ResoucePatternType :: AclResourcePatternType

record AclCreation =
  AclCreation_Resource :: sarama_Resource
  AclCreation_Acl :: sarama_Acl

record AclFilter =
  AclFilter_Version :: int
  AclFilter_ResourceType :: AclResourceType
  AclFilter_ResourceName :: "string option"
  AclFilter_ResourcePatternTypeFilter :: AclResourcePatternType
  AclFilter_Principal :: "string option"
  AclFilter_Host :: "string option"
  AclFilter_Operation :: AclOperation
  AclFilter_PermissionType :: AclPermissionType

record DescribeAclsRequest =
  DescribeAclsRequest_Version :: int
  DescribeAclsRequest_AclFilter :: AclFilter

record ResourceAcls =
  ResourceAcls_Resource :: sarama_Resource
  ResourceAcls_Acls :: "sarama_Acl list"

record DescribeAclsResponse =
  DescribeAclsResponse_Err :: KError
  DescribeAclsResponse_ResourceAcls :: "ResourceAcls list"

text \<open>
  A \<open>*sarama.Broker\<close> and the \<open>sarama.Client\<close> are handles on the network. A handle is the
  record of what each of its methods answers: \<open>Inl\<close> the error of a call that returns
  \<open>(nil, err)\<close>, \<open>Inr\<close> its response. \<open>Open\<close> is sarama's: by its documented contract it
  returns the error of an invalid configuration and otherwise starts to connect in the
  background and returns \<open>nil\<close> without waiting, so that \<open>nil\<close> does not say that the
  address accepts a connection; whether it does shows in the requests sent afterwards.
\<close>

record Broker =
  Addr :: string
  Open :: "sarama_Config \<Rightarrow> error option"
  CreateTopics :: "CreateTopicsRequest \<Rightarrow> error + CreateTopicsResponse"
  DeleteTopics :: "DeleteTopicsRequest \<Rightarrow> error + DeleteTopicsResponse"
  AlterConfigs :: "AlterConfigsRequest \<Rightarrow> error + AlterConfigsResponse"
  CreatePartitions :: "CreatePartitionsRequest \<Rightarrow> error + CreatePartitionsResponse"
  DescribeConfigs :: "DescribeConfigsRequest \<Rightarrow> error + DescribeConfigsResponse"
  DescribeAcls :: "DescribeAclsRequest \<Rightarrow> error + DescribeAclsResponse"

record sarama_Client =
  Controller :: "error + Broker"
  RefreshMetadata :: "error option"
  Topics :: "error + string list"
  Partitions :: "string \<Rightarrow> error + 32 word list"

text \<open>
  What the package calls and the sources do not contain: the functions of sarama, crypto
  and io/ioutil, and the package's own helpers \<open>configToResources\<close> and \<open>ReplicaCount\<close>.
  They are parameters of the model, collected in one record.
\<close>

record externals =
  NewConfig :: sarama_Config
  NewBroker :: "string \<Rightarrow> Broker"
  KError_Error :: "KError \<Rightarrow> string"
  ReadFile :: "string \<Rightarrow> error + string"
  LoadX509KeyPair :: "string \<Rightarrow> string \<Rightarrow> error + tls_Certificate"
  AppendCertsFromPEM :: "CertPool \<Rightarrow> string \<Rightarrow> CertPool"
  configToResources :: "Topic \<Rightarrow> AlterConfigsResource list"
  ReplicaCount :: "sarama_Client \<Rightarrow> string \<Rightarrow> 32 word list \<Rightarrow> error + 64 word"

text \<open>\<open>type Client struct\<close>; both pointers are set by \<open>NewClient\<close> and never nil.\<close>

record Client =
  client :: sarama_Client
  kafkaConfig :: sarama_Config
  config :: Config

section \<open>Deriving the client configuration\<close>

definition SASLEnabled :: "Config \<Rightarrow> bool" where
  "SASLEnabled c \<longleftrightarrow> SASLUsername c \<noteq> '''' \<or> SASLPassword c \<noteq> ''''"

definition clientCert :: "externals \<Rightarrow> Config \<Rightarrow> error + tls_Certificate option" where
  "clientCert X c =
     (case ClientCert c of
        Some cert \<Rightarrow> Inr (Some cert)
      | None \<Rightarrow>
          if ClientCertFile c \<noteq> '''' \<and> ClientCertKey c \<noteq> '''' then
            (case LoadX509KeyPair X (ClientCertFile c) (ClientCertKey c) of
               Inl err \<Rightarrow> Inl err
             | Inr cert \<Rightarrow> Inr (Some cert))
          else Inr None)"

text \<open>
  \<open>caCertPool\<close>: the pool starts empty; the file is read in the branch
  \<open>else if c.CACertFile == ""\<close>, as the source has it.
\<close>

definition caCertPool :: "externals \<Rightarrow> Config \<Rightarrow> error + CertPool" where
  "caCertPool X c =
     (let pool = NewCertPool in
      case CACert c of
        Some cert \<Rightarrow> Inr (AddCert pool cert)
      | None \<Rightarrow>
          if CACertFile c = '''' then
            (case ReadFile X (CACertFile c) of
               Inl err \<Rightarrow> Inl err
             | Inr caCert \<Rightarrow> Inr (AppendCertsFromPEM X pool caCert))
          else Inr pool)"

text \<open>
  \<open>newTLSConfig\<close> returns the configuration built so far together with the error. The
  closing \<open>BuildNameToCertificate\<close> fills a lookup table from \<open>Certificates\<close> and changes
  none of the three fields kept here.
\<close>

definition newTLSConfig :: "externals \<Rightarrow> Config \<Rightarrow> tls_Config \<times> error option" where
  "newTLSConfig X c =
     (let tlsConfig = \<lparr>Certificates = [], RootCAs = None, InsecureSkipVerify = False\<rparr> in
      case clientCert X c of
        Inl err \<Rightarrow> (tlsConfig, Some err)
      | Inr cert \<Rightarrow>
          (let tlsConfig = (case cert of
                              Some crt \<Rightarrow> tlsConfig\<lparr>Certificates := [crt]\<rparr>
                            | None \<Rightarrow> tlsConfig) in
           (case caCertPool X c of
              Inl err \<Rightarrow> (tlsConfig, Some err)
            | Inr pool \<Rightarrow> (tlsConfig\<lparr>RootCAs := Some pool\<rparr>, None))))"

definition newKafkaConfig :: "externals \<Rightarrow> Config \<Rightarrow> sarama_Config \<times> error option" where
  "newKafkaConfig X c =
     (let kafkaConfig = NewConfig X;
          kafkaConfig = kafkaConfig\<lparr>Config_Version := V2_0_0_0\<rparr>;
          kafkaConfig = kafkaConfig\<lparr>Config_ClientID := ''terraform-provider-kafka''\<rparr>;
          kafkaConfig =
            (if SASLEnabled c then
               kafkaConfig\<lparr>Net_SASL_Enable := True,
                            Net_SASL_Password := SASLPassword c,
                            Net_SASL_User := SASLUsername c\<rparr>
             else kafkaConfig)
      in if TLSEnabled c then
           (case newTLSConfig X c of
              (tlsConfig, Some err) \<Rightarrow> (kafkaConfig, Some err)
            | (tlsConfig, None) \<Rightarrow>
                (kafkaConfig\<lparr>Net_TLS_Enable := True,
                              Net_TLS_Config :=
                                Some (tlsConfig\<lparr>InsecureSkipVerify := SkipTLSVerify c\<rparr>)\<rparr>,
                 None))
         else (kafkaConfig, None))"

text \<open>
  \<open>Test_kafkaConfigVersion\<close>: the unit test builds the configuration of \<open>Config{}\<close>, whose
  fields are all zero, and passes when there is no error and the version is \<open>V1_0_0_0\<close>.
\<close>

definition Config_zero :: Config where
  "Config_zero =
     \<lparr>BootstrapServers = None, Timeout = 0, CACert = None, CACertFile = '''',
      ClientCert = None, ClientCertFile = '''', ClientCertKey = '''',
      TLSEnabled = False, SkipTLSVerify = False, SASLUsername = '''', SASLPassword = ''''\<rparr>"

definition Test_kafkaConfigVersion :: "externals \<Rightarrow> bool" where
  "Test_kafkaConfigVersion X =
     (let c = Config_zero in
      case newKafkaConfig X c of
        (cfg, Some err) \<Rightarrow> False
      | (cfg, None) \<Rightarrow> Config_Version cfg = V1_0_0_0)"

section \<open>Topic administration\<close>

text \<open>\<open>time.Duration(c.config.Timeout) * time.Second\<close>, in 64-bit nanoseconds.\<close>

definition timeout_of :: "Client \<Rightarrow> 64 word" where
  "timeout_of c = Timeout (config c) * 1000000000"

text \<open>
  Each \<open>for ... range\<close> over the items of a response is a recursive function on the list
  of items: \<open>Some\<close> the error of the \<open>return\<close> inside the loop, \<open>None\<close> when the loop ends and
  the function goes on to return \<open>nil\<close>.
\<close>

fun DeleteTopic_range :: "externals \<Rightarrow> (string \<times> KError) list \<Rightarrow> error option" where
  "DeleteTopic_range X [] = None"
| "DeleteTopic_range X ((k, e) # rest) =
     (if e \<noteq> ErrNoError then Some (Errorf (k @ '' : '' @ KError_Error X e))
      else DeleteTopic_range X rest)"

definition DeleteTopic :: "externals \<Rightarrow> Client \<Rightarrow> string \<Rightarrow> error option" where
  "DeleteTopic X c t =
     (case Controller (client c) of
        Inl err \<Rightarrow> Some err
      | Inr broker \<Rightarrow>
          (let timeout = timeout_of c;
               req = \<lparr>DeleteTopicsRequest_Topics = [t], DeleteTopicsRequest_Timeout = timeout\<rparr>
           in (case DeleteTopics broker req of
                 Inr res \<Rightarrow> DeleteTopic_range X (TopicErrorCodes res)
               | Inl err \<Rightarrow> Some err)))"

fun UpdateTopic_range :: "AlterConfigsResourceResponse list \<Rightarrow> error option" where
  "UpdateTopic_range [] = None"
| "UpdateTopic_range (e # rest) =
     (if ErrorCode e \<noteq> ErrNoError then Some (Errorf (ErrorMsg e))
      else UpdateTopic_range rest)"

definition UpdateTopic :: "externals \<Rightarrow> Client \<Rightarrow> Topic \<Rightarrow> error option" where
  "UpdateTopic X c topic =
     (case Controller (client c) of
        Inl err \<Rightarrow> Some err
      | Inr broker \<Rightarrow>
          (let r = \<lparr>AlterConfigsRequest_Resources = configToResources X topic,
                    AlterConfigsRequest_ValidateOnly = False\<rparr>
           in (case AlterConfigs broker r of
                 Inl err \<Rightarrow> Some err
               | Inr res \<Rightarrow> UpdateTopic_range (AlterConfigsResponse_Resources res))))"

fun CreateTopic_range :: "externals \<Rightarrow> (string \<times> TopicError) list \<Rightarrow> error option" where
  "CreateTopic_range X [] = None"
| "CreateTopic_range X ((k, e) # rest) =
     (if TopicError_Err e \<noteq> ErrNoError then Some (Errorf (KError_Error X (TopicError_Err e)))
      else CreateTopic_range X rest)"

definition CreateTopic :: "externals \<Rightarrow> Client \<Rightarrow> Topic \<Rightarrow> error option" where
  "CreateTopic X c t =
     (case Controller (client c) of
        Inl err \<Rightarrow> Some err
      | Inr broker \<Rightarrow>
          (let timeout = timeout_of c;
               req = \<lparr>CreateTopicsRequest_TopicDetails =
                        [(Topic_Name t,
                          \<lparr>NumPartitions = Topic_Partitions t,
                           ReplicationFactor = Topic_ReplicationFactor t,
                           ConfigEntries = Topic_Config t\<rparr>)],
                      CreateTopicsRequest_Timeout = timeout\<rparr>
           in (case CreateTopics broker req of
                 Inr res \<Rightarrow> CreateTopic_range X (TopicErrors res)
               | Inl err \<Rightarrow> Some err)))"

fun AddPartitions_range ::
  "externals \<Rightarrow> (string \<times> TopicPartitionError) list \<Rightarrow> error option" where
  "AddPartitions_range X [] = None"
| "AddPartitions_range X ((k, e) # rest) =
     (if TopicPartitionError_Err e \<noteq> ErrNoError
      then Some (Errorf (KError_Error X (TopicPartitionError_Err e)))
      else AddPartitions_range X rest)"

definition AddPartitions :: "externals \<Rightarrow> Client \<Rightarrow> Topic \<Rightarrow> error option" where
  "AddPartitions X c t =
     (case Controller (client c) of
        Inl err \<Rightarrow> Some err
      | Inr broker \<Rightarrow>
          (let timeout = timeout_of c;
               tp = [(Topic_Name t, \<lparr>TopicPartition_Count = Topic_Partitions t\<rparr>)];
               req = \<lparr>CreatePartitionsRequest_TopicPartitions = tp,
                      CreatePartitionsRequest_Timeout = timeout,
                      CreatePartitionsRequest_ValidateOnly = False\<rparr>
           in (case CreatePartitions broker req of
                 Inr res \<Rightarrow> AddPartitions_range X (TopicPartitionErrors res)
               | Inl err \<Rightarrow> Some err)))"

text \<open>
  \<open>topicConfig\<close>: the loop stores every entry that \<open>isDefault\<close> does not skip; a later
  entry of the same name overwrites an earlier one. The map is returned with the error.
\<close>

fun topicConfig_range ::
  "int \<Rightarrow> ConfigEntry list \<Rightarrow> (string \<rightharpoonup> string) \<Rightarrow> (string \<rightharpoonup> string)" where
  "topicConfig_range version [] conf = conf"
| "topicConfig_range version (tConf # rest) conf =
     (let v = ConfigEntry_Value tConf in
      if isDefault tConf version then topicConfig_range version rest conf
      else topicConfig_range version rest (conf(ConfigEntry_Name tConf \<mapsto> v)))"

definition topicConfig :: "Client \<Rightarrow> string \<Rightarrow> (string \<rightharpoonup> string) \<times> error option" where
  "topicConfig c topic =
     (let conf = Map.empty;
          request = \<lparr>DescribeConfigsRequest_Version = 1,
                     DescribeConfigsRequest_Resources =
                       [\<lparr>ConfigResource_Type = TopicResource, ConfigResource_Name = topic\<rparr>]\<rparr>
      in case Controller (client c) of
           Inl err \<Rightarrow> (conf, Some err)
         | Inr broker \<Rightarrow>
             (case DescribeConfigs broker request of
                Inl err \<Rightarrow> (conf, Some err)
              | Inr cr \<Rightarrow>
                  (case DescribeConfigsResponse_Resources cr of
                     [] \<Rightarrow> (conf, None)
                   | r0 # _ \<Rightarrow>
                       if length (Configs r0) > 0 then
                         (topicConfig_range (sint (DescribeConfigsResponse_Version cr))
                            (Configs r0) conf, None)
                       else (conf, None))))"

text \<open>
  \<open>ReadTopic\<close>. The loop over the topic names is \<open>ReadTopic_range\<close>: \<open>Some\<close> the pair
  returned from inside the loop, \<open>None\<close> when the loop ends. The loop changes \<open>topic\<close> only
  on a path that returns, so the \<open>topic\<close> after the loop is the one before it. The error of
  \<open>RefreshMetadata\<close> is overwritten by the result of \<open>Topics\<close> without being read.
\<close>

fun ReadTopic_range ::
  "externals \<Rightarrow> Client \<Rightarrow> string \<Rightarrow> Topic \<Rightarrow> string list \<Rightarrow> (Topic \<times> error option) option"
where
  "ReadTopic_range X cl name topic [] = None"
| "ReadTopic_range X cl name topic (t # rest) =
     (if name = t then
        (case Partitions (client cl) t of
           Inr p \<Rightarrow>
             (let partitionCount = (of_nat (length p) :: 32 word);
                  topic = topic\<lparr>Topic_Partitions := partitionCount\<rparr>;
                  topic = (case ReplicaCount X (client cl) name p of
                             Inr r \<Rightarrow> topic\<lparr>Topic_ReplicationFactor := ucast r\<rparr>
                           | Inl err \<Rightarrow> topic)
              in case topicConfig cl t of
                   (configToSave, Some err) \<Rightarrow> Some (topic, Some err)
                 | (configToSave, None) \<Rightarrow>
                     Some (topic\<lparr>Topic_Config := configToSave\<rparr>, None))
         | Inl err \<Rightarrow> ReadTopic_range X cl name topic rest)
      else ReadTopic_range X cl name topic rest)"

definition ReadTopic :: "externals \<Rightarrow> Client \<Rightarrow> string \<Rightarrow> Topic \<times> error option" where
  "ReadTopic X cl name =
     (let topic = \<lparr>Topic_Name = name, Topic_Partitions = 0, Topic_ReplicationFactor = 0,
                   Topic_Config = Map.empty\<rparr>
      in case Topics (client cl) of
           Inl err \<Rightarrow> (topic, Some err)
         | Inr topics \<Rightarrow>
             (case ReadTopic_range X cl name topic topics of
                Some result \<Rightarrow> result
              | None \<Rightarrow> (topic, Some (TopicMissingError (name @ '' could not be found'')))))"

section \<open>ACL translation\<close>

record ACL =
  ACL_Principal :: string
  ACL_Host :: string
  ACL_Operation :: string
  ACL_PermissionType :: string

record Resource =
  Resource_Type :: string
  Resource_Name :: string
  Resource_PatternTypeFilter :: string

record stringlyTypedACL =
  ACL :: ACL
  Resource :: Resource

text \<open>The zero values \<open>&sarama.AclCreation{}\<close> and \<open>sarama.AclFilter{}\<close>.\<close>

definition AclCreation_zero :: AclCreation where
  "AclCreation_zero =
     \<lparr>AclCreation_Resource = \<lparr>ResourceType = 0, ResourceName = '''', ResoucePatternType = 0\<rparr>,
      AclCreation_Acl =
        \<lparr>Acl_Principal = '''', Acl_Host = '''', Acl_Operation = 0, Acl_PermissionType = 0\<rparr>\<rparr>"

definition AclFilter_zero :: AclFilter where
  "AclFilter_zero =
     \<lparr>AclFilter_Version = 0, AclFilter_ResourceType = 0, AclFilter_ResourceName = None,
      AclFilter_ResourcePatternTypeFilter = 0, AclFilter_Principal = None,
      AclFilter_Host = None, AclFilter_Operation = 0, AclFilter_PermissionType = 0\<rparr>"

text \<open>A single quote, for the messages that put the value between quotes.\<close>

definition quote :: string where
  "quote = [CHR 0x27]"

text \<open>
  \<open>AclCreation\<close> and \<open>AclFilter\<close> return their structure together with the error: on an
  error the structure is the one built up to that point.
\<close>

definition AclCreation :: "stringlyTypedACL \<Rightarrow> AclCreation \<times> error option" where
  "AclCreation s =
     (let acl = AclCreation_zero;
          op = stringToOperation (ACL_Operation (ACL s))
      in if op = unknownConversion then
           (acl, Some (Errorf (''Unknown operation: '' @ quote @ ACL_Operation (ACL s) @ quote)))
         else
           let permissionType = stringToAclPermissionType (ACL_PermissionType (ACL s)) in
           if permissionType = unknownConversion then
             (acl, Some (Errorf (''Unknown permission type: '' @ quote
                                   @ ACL_PermissionType (ACL s) @ quote)))
           else
             let rType = stringToACLResouce (Resource_Type (Resource s)) in
             if rType = unknownConversion then
               (acl, Some (Errorf (''Unknown resource type: '' @ quote
                                     @ Resource_Type (Resource s) @ quote)))
             else
               let patternType = stringToACLPrefix (Resource_PatternTypeFilter (Resource s)) in
               if patternType = unknownConversion then
                 (acl, Some (Errorf (''Unknown pattern type filter: '' @ quote
                                       @ Resource_PatternTypeFilter (Resource s) @ quote)))
               else
                 (acl\<lparr>AclCreation_Acl :=
                        \<lparr>Acl_Principal = ACL_Principal (ACL s),
                         Acl_Host = ACL_Host (ACL s),
                         Acl_Operation = op,
                         Acl_PermissionType = permissionType\<rparr>,
                      AclCreation_Resource :=
                        \<lparr>ResourceType = rType,
                         ResourceName = Resource_Name (Resource s),
                         ResoucePatternType = patternType\<rparr>\<rparr>,
                  None))"

definition AclFilter :: "stringlyTypedACL \<Rightarrow> AclFilter \<times> error option" where
  "AclFilter s =
     (let f = AclFilter_zero
                \<lparr>AclFilter_Principal := Some (ACL_Principal (ACL s)),
                 AclFilter_Host := Some (ACL_Host (ACL s)),
                 AclFilter_ResourceName := Some (Resource_Name (Resource s))\<rparr>;
          op = stringToOperation (ACL_Operation (ACL s))
      in if op = unknownConversion then
           (f, Some (Errorf (''Unknown operation: '' @ ACL_Operation (ACL s))))
         else
           let f = f\<lparr>AclFilter_Operation := op\<rparr>;
               pType = stringToAclPermissionType (ACL_PermissionType (ACL s))
           in if pType = unknownConversion then
                (f, Some (Errorf (''Unknown permission type: '' @ ACL_PermissionType (ACL s))))
              else
                let f = f\<lparr>AclFilter_PermissionType := pType\<rparr>;
                    rType = stringToACLResouce (Resource_Type (Resource s))
                in if rType = unknownConversion then
                     (f, Some (Errorf (''Unknown resource type: '' @ Resource_Type (Resource s))))
                   else (f\<lparr>AclFilter_ResourceType := rType\<rparr>, None))"

section \<open>Brokers and ACL listing\<close>

text \<open>\<open>%v\<close> of a \<open>[]string\<close>: the elements separated by one space, between brackets.\<close>

fun join_space :: "string list \<Rightarrow> string" where
  "join_space [] = ''''"
| "join_space [x] = x"
| "join_space (x # y # rest) = x @ '' '' @ join_space (y # rest)"

definition fmt_v :: "string list \<Rightarrow> string" where
  "fmt_v xs = ''['' @ join_space xs @ '']''"

text \<open>
  \<open>availableBroker\<close>. Beside the result of the source, the model returns the addresses on
  which \<open>Open\<close> was called, in the order of the calls: every call of \<open>Open\<close> appends its
  address. Dereferencing a nil \<open>BootstrapServers\<close> panics.
\<close>

fun availableBroker_range ::
  "externals \<Rightarrow> sarama_Config \<Rightarrow> string list \<Rightarrow> string list \<Rightarrow> Broker option \<times> string list"
where
  "availableBroker_range X kc [] opened = (None, opened)"
| "availableBroker_range X kc (b # rest) opened =
     (let broker = NewBroker X b;
          err = Open broker kc;
          opened = opened @ [b]
      in if err = None then (Some broker, opened)
         else availableBroker_range X kc rest opened)"

definition availableBroker :: "externals \<Rightarrow> Client \<Rightarrow> (error + Broker) \<times> string list" where
  "availableBroker X c =
     (case BootstrapServers (config c) of
        None \<Rightarrow> (Inl NilDereference, [])
      | Some brokers \<Rightarrow>
          (let kc = kafkaConfig c in
           (case availableBroker_range X kc brokers [] of
              (Some broker, opened) \<Rightarrow> (Inr broker, opened)
            | (None, opened) \<Rightarrow>
                (Inl (Errorf (''No Available Brokers @ '' @ fmt_v brokers)), opened))))"

text \<open>The four requests of \<open>ListACLs\<close>, as the source writes them out.\<close>

definition allResources :: "DescribeAclsRequest list" where
  "allResources =
     [\<lparr>DescribeAclsRequest_Version = 1,
       DescribeAclsRequest_AclFilter = AclFilter_zero
         \<lparr>AclFilter_ResourceType := AclResourceTopic,
          AclFilter_ResourcePatternTypeFilter := AclPatternAny,
          AclFilter_PermissionType := AclPermissionAny,
          AclFilter_Operation := AclOperationAny\<rparr>\<rparr>,
      \<lparr>DescribeAclsRequest_Version = 1,
       DescribeAclsRequest_AclFilter = AclFilter_zero
         \<lparr>AclFilter_ResourceType := AclResourceGroup,
          AclFilter_ResourcePatternTypeFilter := AclPatternAny,
          AclFilter_PermissionType := AclPermissionAny,
          AclFilter_Operation := AclOperationAny\<rparr>\<rparr>,
      \<lparr>DescribeAclsRequest_Version = 1,
       DescribeAclsRequest_AclFilter = AclFilter_zero
         \<lparr>AclFilter_ResourceType := AclResourceCluster,
          AclFilter_ResourcePatternTypeFilter := AclPatternAny,
          AclFilter_PermissionType := AclPermissionAny,
          AclFilter_Operation := AclOperationAny\<rparr>\<rparr>,
      \<lparr>DescribeAclsRequest_Version = 1,
       DescribeAclsRequest_AclFilter = AclFilter_zero
         \<lparr>AclFilter_ResourceType := AclResourceTransactionalID,
          AclFilter_ResourcePatternTypeFilter := AclPatternAny,
          AclFilter_PermissionType := AclPermissionAny,
          AclFilter_Operation := AclOperationAny\<rparr>\<rparr>]"

text \<open>
  \<open>ListACLs\<close>. A nil slice and an empty slice are both the empty list. Beside the result
  of the source, the model returns the requests handed to \<open>DescribeAcls\<close>, in the order of
  the calls. The inner loop appends the entries of one response one by one.
\<close>

fun ListACLs_range ::
  "externals \<Rightarrow> Broker \<Rightarrow> DescribeAclsRequest list \<Rightarrow> ResourceAcls list \<Rightarrow>
   DescribeAclsRequest list \<Rightarrow> (ResourceAcls list \<times> error option) \<times> DescribeAclsRequest list"
where
  "ListACLs_range X broker [] res issued = ((res, None), issued)"
| "ListACLs_range X broker (r # rest) res issued =
     (let issued = issued @ [r] in
      case DescribeAcls broker r of
        Inl err \<Rightarrow> (([], Some err), issued)
      | Inr aclsR \<Rightarrow>
          if DescribeAclsResponse_Err aclsR \<noteq> ErrNoError then
            (([], Some (Errorf (KError_Error X (DescribeAclsResponse_Err aclsR)))), issued)
          else
            ListACLs_range X broker rest
              (foldl (\<lambda>res a. res @ [a]) res (DescribeAclsResponse_ResourceAcls aclsR))
              issued)"

definition ListACLs ::
  "externals \<Rightarrow> Client \<Rightarrow> (ResourceAcls list \<times> error option) \<times> DescribeAclsRequest list" where
  "ListACLs X c =
     (case fst (availableBroker X c) of
        Inl err \<Rightarrow> (([], Some err), [])
      | Inr broker \<Rightarrow>
          (case RefreshMetadata (client c) of
             Some err \<Rightarrow> (([], Some err), [])
           | None \<Rightarrow> ListACLs_range X broker allResources [] []))"

section \<open>Specification vocabulary\<close>

text \<open>Every per-item code of a response is "no error".\<close>

definition all_clear :: "KError list \<Rightarrow> bool" where
  "all_clear codes \<longleftrightarrow> (\<forall>e \<in> set codes. e = ErrNoError)"

text \<open>
  A describe-ACL query is answered: no transport error and the response code "no error";
  \<open>entries\<close> are the ACL entries of its response.
\<close>

definition answered :: "Broker \<Rightarrow> DescribeAclsRequest \<Rightarrow> bool" where
  "answered broker r =
     (case DescribeAcls broker r of
        Inl err \<Rightarrow> False
      | Inr aclsR \<Rightarrow> DescribeAclsResponse_Err aclsR = ErrNoError)"

definition entries :: "Broker \<Rightarrow> DescribeAclsRequest \<Rightarrow> ResourceAcls list" where
  "entries broker r =
     (case DescribeAcls broker r of
        Inl err \<Rightarrow> []
      | Inr aclsR \<Rightarrow> DescribeAclsResponse_ResourceAcls aclsR)"

section \<open>A sample cluster\<close>

text \<open>
  Concrete handles on which the theorems below are exercised. Only the addresses
  \<open>good:2\<close> and \<open>strict:3\<close> accept connections. \<open>Open\<close> returns \<open>nil\<close> on every address, as it
  does under a valid configuration; every request to a broker at an address that accepts
  no connection fails with the connection error. The broker at \<open>strict:3\<close> answers a
  describe-ACL query on the cluster resource with the code 31 (cluster authorization
  failed). Mutations of a topic called \<open>ghost\<close> are answered with the code 3 (unknown
  topic or partition), all others with the code 0. The cluster lists the topics
  \<open>syslog\<close> and \<open>ghost\<close>, and has partitions for \<open>syslog\<close> only.
\<close>

definition sample_reachable :: "string \<Rightarrow> bool" where
  "sample_reachable addr \<longleftrightarrow> addr = ''good:2'' \<or> addr = ''strict:3''"

definition sample_refused :: error where
  "sample_refused = LibError ''dial tcp: connection refused''"

definition sample_code :: "string \<Rightarrow> KError" where
  "sample_code k = (if k = ''ghost'' then 3 else ErrNoError)"

definition sample_entries :: "ConfigEntry list" where
  "sample_entries =
     [\<lparr>ConfigEntry_Name = ''segment.ms'', ConfigEntry_Value = ''4000'',
       ConfigEntry_ReadOnly = False, ConfigEntry_Default = False,
       ConfigEntry_Source = SourceTopic, ConfigEntry_Sensitive = False\<rparr>,
      \<lparr>ConfigEntry_Name = ''cleanup.policy'', ConfigEntry_Value = ''delete'',
       ConfigEntry_ReadOnly = False, ConfigEntry_Default = False,
       ConfigEntry_Source = SourceDefault, ConfigEntry_Sensitive = False\<rparr>]"

definition sample_acls :: "AclResourceType \<Rightarrow> ResourceAcls list" where
  "sample_acls rt =
     (if rt = AclResourceTopic then
        [\<lparr>ResourceAcls_Resource =
            \<lparr>ResourceType = AclResourceTopic, ResourceName = ''syslog'',
             ResoucePatternType = AclPatternLiteral\<rparr>,
          ResourceAcls_Acls =
            [\<lparr>Acl_Principal = ''User:Alice'', Acl_Host = ''*'',
              Acl_Operation = AclOperationWrite, Acl_PermissionType = AclPermissionAllow\<rparr>]\<rparr>]
      else if rt = AclResourceGroup then
        [\<lparr>ResourceAcls_Resource =
            \<lparr>ResourceType = AclResourceGroup, ResourceName = ''readers'',
             ResoucePatternType = AclPatternLiteral\<rparr>,
          ResourceAcls_Acls =
            [\<lparr>Acl_Principal = ''User:Bob'', Acl_Host = ''*'',
              Acl_Operation = AclOperationRead, Acl_PermissionType = AclPermissionAllow\<rparr>]\<rparr>]
      else [])"

definition sample_unreachable :: "string \<Rightarrow> Broker" where
  "sample_unreachable addr =
     \<lparr>Addr = addr,
      Open = (\<lambda>kc. None),
      CreateTopics = (\<lambda>req. Inl sample_refused),
      DeleteTopics = (\<lambda>req. Inl sample_refused),
      AlterConfigs = (\<lambda>req. Inl sample_refused),
      CreatePartitions = (\<lambda>req. Inl sample_refused),
      DescribeConfigs = (\<lambda>req. Inl sample_refused),
      DescribeAcls = (\<lambda>req. Inl sample_refused)\<rparr>"

definition sample_answering :: "string \<Rightarrow> Broker" where
  "sample_answering addr =
     \<lparr>Addr = addr,
      Open = (\<lambda>kc. None),
      CreateTopics = (\<lambda>req. Inr \<lparr>TopicErrors =
         map (\<lambda>(k, d). (k, \<lparr>TopicError_Err = sample_code k\<rparr>))
           (CreateTopicsRequest_TopicDetails req)\<rparr>),
      DeleteTopics = (\<lambda>req. Inr \<lparr>TopicErrorCodes =
         map (\<lambda>k. (k, sample_code k)) (DeleteTopicsRequest_Topics req)\<rparr>),
      AlterConfigs = (\<lambda>req. Inr \<lparr>AlterConfigsResponse_Resources =
         map (\<lambda>r. \<lparr>ErrorCode = sample_code (AlterConfigsResource_Name r),
                    ErrorMsg = ''no such topic''\<rparr>)
           (AlterConfigsRequest_Resources req)\<rparr>),
      CreatePartitions = (\<lambda>req. Inr \<lparr>TopicPartitionErrors =
         map (\<lambda>(k, p). (k, \<lparr>TopicPartitionError_Err = sample_code k\<rparr>))
           (CreatePartitionsRequest_TopicPartitions req)\<rparr>),
      DescribeConfigs = (\<lambda>req. Inr \<lparr>DescribeConfigsResponse_Version = 1,
         DescribeConfigsResponse_Resources = [\<lparr>Configs = sample_entries\<rparr>]\<rparr>),
      DescribeAcls = (\<lambda>req.
         if addr = ''strict:3'' \<and>
            AclFilter_ResourceType (DescribeAclsRequest_AclFilter req) = AclResourceCluster
         then Inr \<lparr>DescribeAclsResponse_Err = 31, DescribeAclsResponse_ResourceAcls = []\<rparr>
         else Inr \<lparr>DescribeAclsResponse_Err = ErrNoError,
                   DescribeAclsResponse_ResourceAcls =
                     sample_acls (AclFilter_ResourceType (DescribeAclsRequest_AclFilter req))\<rparr>)\<rparr>"

definition sample_broker :: "string \<Rightarrow> Broker" where
  "sample_broker addr =
     (if sample_reachable addr then sample_answering addr else sample_unreachable addr)"

definition sample_config :: sarama_Config where
  "sample_config =
     \<lparr>Config_Version = KafkaVersion 0 8 2 0, Config_ClientID = ''sarama'',
      Net_SASL_Enable = False, Net_SASL_User = '''', Net_SASL_Password = '''',
      Net_TLS_Enable = False, Net_TLS_Config = None\<rparr>"

definition sample_externals :: externals where
  "sample_externals =
     \<lparr>NewConfig = sample_config,
      NewBroker = sample_broker,
      KError_Error = (\<lambda>e. ''kafka server: request failed''),
      ReadFile = (\<lambda>path. Inl (LibError ''open: no such file or directory'')),
      LoadX509KeyPair = (\<lambda>certFile keyFile. Inr (tls_Certificate certFile keyFile)),
      AppendCertsFromPEM = (\<lambda>pool pem. pool @ [Certificate pem]),
      configToResources = (\<lambda>t. [\<lparr>AlterConfigsResource_Name = Topic_Name t,
                                  AlterConfigsResource_ConfigEntries = Topic_Config t\<rparr>]),
      ReplicaCount = (\<lambda>c name p. Inr 1)\<rparr>"

definition sample_client :: Client where
  "sample_client =
     \<lparr>client =
        \<lparr>Controller = Inr (sample_broker ''good:2''),
         RefreshMetadata = None,
         Topics = Inr [''syslog'', ''ghost''],
         Partitions = (\<lambda>t. if t = ''syslog'' then Inr [0, 1, 2, 3]
                            else Inl (LibError ''unknown topic or partition''))\<rparr>,
      kafkaConfig = sample_config\<lparr>Config_Version := V2_0_0_0\<rparr>,
      config = Config_zero\<lparr>BootstrapServers := Some [''bad:1'', ''good:2''], Timeout := 30\<rparr>\<rparr>"

definition sample_topic :: "string \<Rightarrow> Topic" where
  "sample_topic name =
     \<lparr>Topic_Name = name, Topic_Partitions = 4, Topic_ReplicationFactor = 1,
      Topic_Config = [''segment.ms'' \<mapsto> ''4000'']\<rparr>"

text \<open>
  The client of \<open>sample_client\<close> with other bootstrap addresses, and the ACL of the
  example configuration with a given operation and pattern-type filter.
\<close>

definition sample_client_at :: "string list \<Rightarrow> Client" where
  "sample_client_at addrs =
     sample_client\<lparr>config := (config sample_client)\<lparr>BootstrapServers := Some addrs\<rparr>\<rparr>"

definition sample_acl :: "string \<Rightarrow> string \<Rightarrow> stringlyTypedACL" where
  "sample_acl operation pattern =
     \<lparr>ACL = \<lparr>ACL_Principal = ''User:Alice'', ACL_Host = ''*'', ACL_Operation = operation,
              ACL_PermissionType = ''Allow''\<rparr>,
      Resource = \<lparr>Resource_Type = ''Topic'', Resource_Name = ''syslog-*'',
                   Resource_PatternTypeFilter = pattern\<rparr>\<rparr>"

section \<open>Properties of the ACL vocabulary\<close>

lemmas acl_consts =
  AclOperationUnknown_def AclOperationAny_def AclOperationAll_def AclOperationRead_def
  AclOperationWrite_def AclOperationCreate_def AclOperationDelete_def AclOperationAlter_def
  AclOperationDescribe_def AclOperationClusterAction_def AclOperationDescribeConfigs_def
  AclOperationAlterConfigs_def AclOperationIdempotentWrite_def
  AclPermissionUnknown_def AclPermissionAny_def AclPermissionDeny_def AclPermissionAllow_def
  AclResourceUnknown_def AclResourceAny_def AclResourceTopic_def AclResourceGroup_def
  AclResourceCluster_def AclResourceTransactionalID_def
  AclPatternUnknown_def AclPatternAny_def AclPatternMatch_def AclPatternLiteral_def
  AclPatternPrefixed_def

lemma operation_listed: "map stringToOperation operation_vocabulary = operation_values"
  by (simp add: operation_vocabulary_def operation_values_def stringToOperation_def)

lemma permission_listed:
  "map stringToAclPermissionType permission_vocabulary = permission_values"
  by (simp add: permission_vocabulary_def permission_values_def stringToAclPermissionType_def)

lemma resource_listed: "map stringToACLResouce resource_vocabulary = resource_values"
  by (simp add: resource_vocabulary_def resource_values_def stringToACLResouce_def)

lemma pattern_listed: "map stringToACLPrefix pattern_vocabulary = pattern_values"
  by (simp add: pattern_vocabulary_def pattern_values_def stringToACLPrefix_def)

lemma operation_values_distinct:
  "distinct operation_values" "unknownConversion \<notin> set operation_values"
  by (simp_all add: operation_values_def acl_consts unknownConversion_def)

lemma permission_values_distinct:
  "distinct permission_values" "unknownConversion \<notin> set permission_values"
  by (simp_all add: permission_values_def acl_consts unknownConversion_def)

lemma resource_values_distinct:
  "distinct resource_values" "unknownConversion \<notin> set resource_values"
  by (simp_all add: resource_values_def acl_consts unknownConversion_def)

lemma pattern_values_distinct:
  "distinct pattern_values" "unknownConversion \<notin> set pattern_values"
  by (simp_all add: pattern_values_def acl_consts unknownConversion_def)

lemma operation_outside:
  "s \<notin> set operation_vocabulary \<Longrightarrow> stringToOperation s = unknownConversion"
  by (simp add: operation_vocabulary_def stringToOperation_def)

lemma permission_outside:
  "s \<notin> set permission_vocabulary \<Longrightarrow> stringToAclPermissionType s = unknownConversion"
  by (simp add: permission_vocabulary_def stringToAclPermissionType_def)

lemma resource_outside:
  "s \<notin> set resource_vocabulary \<Longrightarrow> stringToACLResouce s = unknownConversion"
  by (simp add: resource_vocabulary_def stringToACLResouce_def)

lemma pattern_outside:
  "s \<notin> set pattern_vocabulary \<Longrightarrow> stringToACLPrefix s = unknownConversion"
  by (simp add: pattern_vocabulary_def stringToACLPrefix_def)

lemma canonical_of_listed:
  "distinct (map f vocabulary) \<Longrightarrow> s \<in> set vocabulary \<Longrightarrow>
   canonical f vocabulary (f s) = Some s"
  unfolding canonical_def
  by (induction vocabulary) (auto simp: image_iff)

lemma canonical_of_value:
  "v \<in> set (map f vocabulary) \<Longrightarrow>
   \<exists>s \<in> set vocabulary. canonical f vocabulary v = Some s \<and> f s = v"
  unfolding canonical_def
  by (induction vocabulary) auto

lemma translatesI:
  assumes "map f vocabulary = values" "distinct values" "unknownConversion \<notin> set values"
    and "\<And>s. s \<notin> set vocabulary \<Longrightarrow> f s = unknownConversion"
  shows "translates f vocabulary values"
  unfolding translates_def
  using assms canonical_of_listed[of f vocabulary] canonical_of_value[of _ f vocabulary]
  by metis

text \<open>
  Claim C4. Each of the four mappings from strings to ACL enumerations (operation,
  permission type, resource type, pattern-type filter) is total over its vocabulary: every
  listed string maps to its own enumeration value, the values are distinct and differ from
  the sentinel \<open>unknownConversion\<close>, every other string maps to the sentinel, and going
  from an enumeration value to its canonical string and back gives the value again.
\<close>

theorem acl_mappings_total:
  "translates stringToOperation operation_vocabulary operation_values \<and>
   translates stringToAclPermissionType permission_vocabulary permission_values \<and>
   translates stringToACLResouce resource_vocabulary resource_values \<and>
   translates stringToACLPrefix pattern_vocabulary pattern_values"
  by (intro conjI translatesI operation_listed permission_listed resource_listed pattern_listed
        operation_values_distinct permission_values_distinct resource_values_distinct
        pattern_values_distinct operation_outside permission_outside resource_outside
        pattern_outside)

theorem acl_mappings_total_witness:
  "''Reed'' \<notin> set operation_vocabulary \<and> stringToOperation ''Reed'' = unknownConversion \<and>
   ''Read'' \<in> set operation_vocabulary \<and>
   canonical stringToOperation operation_vocabulary (stringToOperation ''Read'') = Some ''Read'' \<and>
   ''Prefixed'' \<notin> set pattern_vocabulary \<and>
   stringToACLPrefix ''Prefixed'' = unknownConversion \<and>
   ''prefixed'' \<in> set pattern_vocabulary \<and>
   canonical stringToACLPrefix pattern_vocabulary (stringToACLPrefix ''prefixed'')
     = Some ''prefixed''"
proof -
  have a: "''Reed'' \<notin> set operation_vocabulary" "''Read'' \<in> set operation_vocabulary"
    by (simp_all add: operation_vocabulary_def)
  have b: "''Prefixed'' \<notin> set pattern_vocabulary" "''prefixed'' \<in> set pattern_vocabulary"
    by (simp_all add: pattern_vocabulary_def)
  from a b acl_mappings_total show ?thesis
    unfolding translates_def by blast
qed

section \<open>Properties of the default test\<close>

text \<open>
  Claim C2. For every configuration entry: at protocol version 0 \<open>isDefault\<close> is the
  entry's own is-default flag, and at every version from 1 on it holds exactly when the
  entry's source is "default" or "static broker config"; any other source is explicit.
\<close>

theorem isDefault_by_version:
  "isDefault tc 0 = ConfigEntry_Default tc \<and>
   (1 \<le> version \<longrightarrow>
      isDefault tc version =
        (ConfigEntry_Source tc = SourceDefault \<or> ConfigEntry_Source tc = SourceStaticBroker))"
  by (simp add: isDefault_def)

theorem isDefault_by_version_witness:
  "(1::int) \<le> 1 \<and>
   isDefault \<lparr>ConfigEntry_Name = ''retention.ms'', ConfigEntry_Value = ''86400000'',
              ConfigEntry_ReadOnly = False, ConfigEntry_Default = True,
              ConfigEntry_Source = SourceTopic, ConfigEntry_Sensitive = False\<rparr> 1 = False \<and>
   isDefault \<lparr>ConfigEntry_Name = ''retention.ms'', ConfigEntry_Value = ''86400000'',
              ConfigEntry_ReadOnly = False, ConfigEntry_Default = True,
              ConfigEntry_Source = SourceTopic, ConfigEntry_Sensitive = False\<rparr> 0 = True"
  using isDefault_by_version
    [of "\<lparr>ConfigEntry_Name = ''retention.ms'', ConfigEntry_Value = ''86400000'',
          ConfigEntry_ReadOnly = False, ConfigEntry_Default = True,
          ConfigEntry_Source = SourceTopic, ConfigEntry_Sensitive = False\<rparr>" 1]
  by simp

section \<open>Properties of the topic mutations\<close>

lemma DeleteTopic_range_None:
  "DeleteTopic_range X xs = None \<longleftrightarrow> all_clear (map snd xs)"
  by (induction X xs rule: DeleteTopic_range.induct) (auto simp: all_clear_def)

lemma UpdateTopic_range_None:
  "UpdateTopic_range xs = None \<longleftrightarrow> all_clear (map ErrorCode xs)"
  by (induction xs) (auto simp: all_clear_def)

lemma CreateTopic_range_None:
  "CreateTopic_range X xs = None \<longleftrightarrow> all_clear (map (\<lambda>(k, e). TopicError_Err e) xs)"
  by (induction X xs rule: CreateTopic_range.induct) (auto simp: all_clear_def)

lemma AddPartitions_range_None:
  "AddPartitions_range X xs = None \<longleftrightarrow> all_clear (map (\<lambda>(k, e). TopicPartitionError_Err e) xs)"
  by (induction X xs rule: AddPartitions_range.induct) (auto simp: all_clear_def)

lemma DeleteTopic_None:
  "DeleteTopic X c t = None \<longleftrightarrow>
     (\<exists>broker res. Controller (client c) = Inr broker \<and>
        DeleteTopics broker
          \<lparr>DeleteTopicsRequest_Topics = [t], DeleteTopicsRequest_Timeout = timeout_of c\<rparr> = Inr res \<and>
        all_clear (map snd (TopicErrorCodes res)))"
  by (auto simp: DeleteTopic_def DeleteTopic_range_None Let_def split: sum.splits)

lemma UpdateTopic_None:
  "UpdateTopic X c topic = None \<longleftrightarrow>
     (\<exists>broker res. Controller (client c) = Inr broker \<and>
        AlterConfigs broker
          \<lparr>AlterConfigsRequest_Resources = configToResources X topic,
           AlterConfigsRequest_ValidateOnly = False\<rparr> = Inr res \<and>
        all_clear (map ErrorCode (AlterConfigsResponse_Resources res)))"
  by (auto simp: UpdateTopic_def UpdateTopic_range_None Let_def split: sum.splits)

lemma CreateTopic_None:
  "CreateTopic X c t = None \<longleftrightarrow>
     (\<exists>broker res. Controller (client c) = Inr broker \<and>
        CreateTopics broker
          \<lparr>CreateTopicsRequest_TopicDetails =
             [(Topic_Name t,
               \<lparr>NumPartitions = Topic_Partitions t,
                ReplicationFactor = Topic_ReplicationFactor t,
                ConfigEntries = Topic_Config t\<rparr>)],
           CreateTopicsRequest_Timeout = timeout_of c\<rparr> = Inr res \<and>
        all_clear (map (\<lambda>(k, e). TopicError_Err e) (TopicErrors res)))"
  by (auto simp: CreateTopic_def CreateTopic_range_None Let_def split: sum.splits)

lemma AddPartitions_None:
  "AddPartitions X c t = None \<longleftrightarrow>
     (\<exists>broker res. Controller (client c) = Inr broker \<and>
        CreatePartitions broker
          \<lparr>CreatePartitionsRequest_TopicPartitions =
             [(Topic_Name t, \<lparr>TopicPartition_Count = Topic_Partitions t\<rparr>)],
           CreatePartitionsRequest_Timeout = timeout_of c,
           CreatePartitionsRequest_ValidateOnly = False\<rparr> = Inr res \<and>
        all_clear (map (\<lambda>(k, e). TopicPartitionError_Err e) (TopicPartitionErrors res)))"
  by (auto simp: AddPartitions_def AddPartitions_range_None Let_def split: sum.splits)

text \<open>
  Claim C1. Each of \<open>CreateTopic\<close>, \<open>UpdateTopic\<close>, \<open>DeleteTopic\<close> and \<open>AddPartitions\<close>
  returns \<open>nil\<close> exactly when the controller is resolved, the transport call returns a
  response without a transport error, and every per-item code of the response is "no
  error". So a response that arrives without a transport error and carries one code that
  is not "no error" makes the operation fail.
\<close>

theorem topic_mutations_succeed_iff:
  "(CreateTopic X c t = None \<longleftrightarrow>
     (\<exists>broker res. Controller (client c) = Inr broker \<and>
        CreateTopics broker
          \<lparr>CreateTopicsRequest_TopicDetails =
             [(Topic_Name t,
               \<lparr>NumPartitions = Topic_Partitions t,
                ReplicationFactor = Topic_ReplicationFactor t,
                ConfigEntries = Topic_Config t\<rparr>)],
           CreateTopicsRequest_Timeout = timeout_of c\<rparr> = Inr res \<and>
        all_clear (map (\<lambda>(k, e). TopicError_Err e) (TopicErrors res)))) \<and>
   (UpdateTopic X c t = None \<longleftrightarrow>
     (\<exists>broker res. Controller (client c) = Inr broker \<and>
        AlterConfigs broker
          \<lparr>AlterConfigsRequest_Resources = configToResources X t,
           AlterConfigsRequest_ValidateOnly = False\<rparr> = Inr res \<and>
        all_clear (map ErrorCode (AlterConfigsResponse_Resources res)))) \<and>
   (DeleteTopic X c (Topic_Name t) = None \<longleftrightarrow>
     (\<exists>broker res. Controller (client c) = Inr broker \<and>
        DeleteTopics broker
          \<lparr>DeleteTopicsRequest_Topics = [Topic_Name t],
           DeleteTopicsRequest_Timeout = timeout_of c\<rparr> = Inr res \<and>
        all_clear (map snd (TopicErrorCodes res)))) \<and>
   (AddPartitions X c t = None \<longleftrightarrow>
     (\<exists>broker res. Controller (client c) = Inr broker \<and>
        CreatePartitions broker
          \<lparr>CreatePartitionsRequest_TopicPartitions =
             [(Topic_Name t, \<lparr>TopicPartition_Count = Topic_Partitions t\<rparr>)],
           CreatePartitionsRequest_Timeout = timeout_of c,
           CreatePartitionsRequest_ValidateOnly = False\<rparr> = Inr res \<and>
        all_clear (map (\<lambda>(k, e). TopicPartitionError_Err e) (TopicPartitionErrors res))))"
  by (intro conjI CreateTopic_None UpdateTopic_None DeleteTopic_None AddPartitions_None)

lemmas sample_broker_defs = sample_broker_def sample_reachable_def sample_answering_def
  sample_unreachable_def sample_refused_def

lemmas sample_defs = sample_client_def sample_broker_defs sample_externals_def sample_topic_def
  sample_code_def all_clear_def ErrNoError_def

theorem topic_mutations_succeed_iff_witness:
  "CreateTopic sample_externals sample_client (sample_topic ''syslog'') = None \<and>
   UpdateTopic sample_externals sample_client (sample_topic ''syslog'') = None \<and>
   DeleteTopic sample_externals sample_client ''syslog'' = None \<and>
   AddPartitions sample_externals sample_client (sample_topic ''syslog'') = None \<and>
   CreateTopic sample_externals sample_client (sample_topic ''ghost'') \<noteq> None \<and>
   UpdateTopic sample_externals sample_client (sample_topic ''ghost'') \<noteq> None \<and>
   DeleteTopic sample_externals sample_client ''ghost'' \<noteq> None \<and>
   AddPartitions sample_externals sample_client (sample_topic ''ghost'') \<noteq> None"
  using topic_mutations_succeed_iff [of sample_externals sample_client "sample_topic ''syslog''"]
    topic_mutations_succeed_iff [of sample_externals sample_client "sample_topic ''ghost''"]
  by (simp add: sample_defs)

section \<open>Properties of reading a topic\<close>

lemma ReadTopic_range_absent:
  "name \<notin> set topics \<Longrightarrow> ReadTopic_range X cl name topic topics = None"
  by (induction topics) auto

lemma ReadTopic_range_no_partitions:
  "Partitions (client cl) name = Inl e \<Longrightarrow> ReadTopic_range X cl name topic topics = None"
  by (induction topics) auto

text \<open>
  Claim C3. When the topic listing is obtained and the requested name is not in it,
  \<open>ReadTopic\<close> fails with a \<open>TopicMissingError\<close> whose message starts with that exact
  name; the error is of a type of its own, different from the errors of the transport
  and from the formatted protocol errors.
\<close>

theorem ReadTopic_absent:
  assumes "Topics (client cl) = Inr topics" and "name \<notin> set topics"
  shows "ReadTopic X cl name =
           (\<lparr>Topic_Name = name, Topic_Partitions = 0, Topic_ReplicationFactor = 0,
             Topic_Config = Map.empty\<rparr>,
            Some (TopicMissingError (name @ '' could not be found''))) \<and>
         (\<forall>m. TopicMissingError (name @ '' could not be found'') \<noteq> LibError m \<and>
              TopicMissingError (name @ '' could not be found'') \<noteq> Errorf m)"
  using assms by (simp add: ReadTopic_def ReadTopic_range_absent)

theorem ReadTopic_absent_witness:
  "Topics (client sample_client) = Inr [''syslog'', ''ghost''] \<and>
   ''audit'' \<notin> set [''syslog'', ''ghost''] \<and>
   snd (ReadTopic sample_externals sample_client ''audit'')
     = Some (TopicMissingError ''audit could not be found'')"
proof -
  have a: "Topics (client sample_client) = Inr [''syslog'', ''ghost'']"
    by (simp add: sample_client_def)
  have b: "''audit'' \<notin> set [''syslog'', ''ghost'']" by simp
  from ReadTopic_absent [OF a b, of sample_externals] a b show ?thesis by simp
qed

text \<open>
  Claim C10. When the requested name is in the topic listing but the partition query for
  it returns an error, \<open>ReadTopic\<close> does not return that error: the loop goes on, ends,
  and the result is the \<open>TopicMissingError\<close> for the name. A \<open>TopicMissingError\<close> therefore
  does not imply that the topic is absent from the listing.
\<close>

theorem ReadTopic_partition_error_reported_missing:
  assumes "Topics (client cl) = Inr topics" and "name \<in> set topics"
    and "Partitions (client cl) name = Inl e"
  shows "ReadTopic X cl name =
           (\<lparr>Topic_Name = name, Topic_Partitions = 0, Topic_ReplicationFactor = 0,
             Topic_Config = Map.empty\<rparr>,
            Some (TopicMissingError (name @ '' could not be found''))) \<and>
         (e \<noteq> TopicMissingError (name @ '' could not be found'') \<longrightarrow>
            snd (ReadTopic X cl name) \<noteq> Some e)"
  using assms by (simp add: ReadTopic_def ReadTopic_range_no_partitions)

theorem ReadTopic_partition_error_reported_missing_witness:
  "Topics (client sample_client) = Inr [''syslog'', ''ghost''] \<and>
   ''ghost'' \<in> set [''syslog'', ''ghost''] \<and>
   Partitions (client sample_client) ''ghost'' = Inl (LibError ''unknown topic or partition'') \<and>
   snd (ReadTopic sample_externals sample_client ''ghost'')
     = Some (TopicMissingError ''ghost could not be found'')"
proof -
  have a: "Topics (client sample_client) = Inr [''syslog'', ''ghost'']"
    by (simp add: sample_client_def)
  have b: "''ghost'' \<in> set [''syslog'', ''ghost'']" by simp
  have c: "Partitions (client sample_client) ''ghost'' = Inl (LibError ''unknown topic or partition'')"
    by (simp add: sample_client_def)
  from ReadTopic_partition_error_reported_missing [OF a b c, of sample_externals] a b c
  show ?thesis by simp
qed

text \<open>For comparison, a topic that is listed and has partitions is read back in full.\<close>

lemma ReadTopic_found_sample:
  "ReadTopic sample_externals sample_client ''syslog'' =
     (\<lparr>Topic_Name = ''syslog'', Topic_Partitions = 4, Topic_ReplicationFactor = 1,
       Topic_Config = [''segment.ms'' \<mapsto> ''4000'']\<rparr>, None)"
  by (simp add: ReadTopic_def sample_client_def sample_externals_def topicConfig_def
        sample_broker_defs sample_entries_def isDefault_def)

section \<open>Properties of the ACL builders\<close>

lemma known_iff:
  assumes "map f vocabulary = values" "unknownConversion \<notin> set values"
    and "\<And>s. s \<notin> set vocabulary \<Longrightarrow> f s = unknownConversion"
  shows "f s = unknownConversion \<longleftrightarrow> s \<notin> set vocabulary"
proof
  assume "f s = unknownConversion"
  show "s \<notin> set vocabulary"
  proof
    assume "s \<in> set vocabulary"
    then have "f s \<in> set (map f vocabulary)" by simp
    with assms(1,2) \<open>f s = unknownConversion\<close> show False by simp
  qed
next
  assume "s \<notin> set vocabulary"
  then show "f s = unknownConversion" by (rule assms(3))
qed

lemma operation_known:
  "stringToOperation s = unknownConversion \<longleftrightarrow> s \<notin> set operation_vocabulary"
  by (rule known_iff [OF operation_listed operation_values_distinct(2) operation_outside])

lemma permission_known:
  "stringToAclPermissionType s = unknownConversion \<longleftrightarrow> s \<notin> set permission_vocabulary"
  by (rule known_iff [OF permission_listed permission_values_distinct(2) permission_outside])

lemma resource_known:
  "stringToACLResouce s = unknownConversion \<longleftrightarrow> s \<notin> set resource_vocabulary"
  by (rule known_iff [OF resource_listed resource_values_distinct(2) resource_outside])

lemma pattern_known:
  "stringToACLPrefix s = unknownConversion \<longleftrightarrow> s \<notin> set pattern_vocabulary"
  by (rule known_iff [OF pattern_listed pattern_values_distinct(2) pattern_outside])

text \<open>
  What the two builders compute. \<open>AclCreation\<close> checks the operation, the permission
  type, the resource type and the pattern-type filter, in this order; \<open>AclFilter\<close> checks
  the operation, the permission type and the resource type, in this order, and never
  looks at the pattern-type filter. Each fails at the first field it checks whose string
  is outside the vocabulary, whatever the later fields are.
\<close>

lemma acl_builders_validate_in_order:
  "AclCreation s =
     (if ACL_Operation (ACL s) \<notin> set operation_vocabulary then
        (AclCreation_zero,
         Some (Errorf (''Unknown operation: '' @ quote @ ACL_Operation (ACL s) @ quote)))
      else if ACL_PermissionType (ACL s) \<notin> set permission_vocabulary then
        (AclCreation_zero,
         Some (Errorf (''Unknown permission type: '' @ quote @ ACL_PermissionType (ACL s)
                         @ quote)))
      else if Resource_Type (Resource s) \<notin> set resource_vocabulary then
        (AclCreation_zero,
         Some (Errorf (''Unknown resource type: '' @ quote @ Resource_Type (Resource s)
                         @ quote)))
      else if Resource_PatternTypeFilter (Resource s) \<notin> set pattern_vocabulary then
        (AclCreation_zero,
         Some (Errorf (''Unknown pattern type filter: '' @ quote
                         @ Resource_PatternTypeFilter (Resource s) @ quote)))
      else
        (\<lparr>AclCreation_Resource =
            \<lparr>ResourceType = stringToACLResouce (Resource_Type (Resource s)),
             ResourceName = Resource_Name (Resource s),
             ResoucePatternType = stringToACLPrefix (Resource_PatternTypeFilter (Resource s))\<rparr>,
          AclCreation_Acl =
            \<lparr>Acl_Principal = ACL_Principal (ACL s),
             Acl_Host = ACL_Host (ACL s),
             Acl_Operation = stringToOperation (ACL_Operation (ACL s)),
             Acl_PermissionType = stringToAclPermissionType (ACL_PermissionType (ACL s))\<rparr>\<rparr>,
         None)) \<and>
   AclFilter s =
     (if ACL_Operation (ACL s) \<notin> set operation_vocabulary then
        (AclFilter_zero
           \<lparr>AclFilter_Principal := Some (ACL_Principal (ACL s)),
            AclFilter_Host := Some (ACL_Host (ACL s)),
            AclFilter_ResourceName := Some (Resource_Name (Resource s))\<rparr>,
         Some (Errorf (''Unknown operation: '' @ ACL_Operation (ACL s))))
      else if ACL_PermissionType (ACL s) \<notin> set permission_vocabulary then
        (AclFilter_zero
           \<lparr>AclFilter_Principal := Some (ACL_Principal (ACL s)),
            AclFilter_Host := Some (ACL_Host (ACL s)),
            AclFilter_ResourceName := Some (Resource_Name (Resource s)),
            AclFilter_Operation := stringToOperation (ACL_Operation (ACL s))\<rparr>,
         Some (Errorf (''Unknown permission type: '' @ ACL_PermissionType (ACL s))))
      else if Resource_Type (Resource s) \<notin> set resource_vocabulary then
        (AclFilter_zero
           \<lparr>AclFilter_Principal := Some (ACL_Principal (ACL s)),
            AclFilter_Host := Some (ACL_Host (ACL s)),
            AclFilter_ResourceName := Some (Resource_Name (Resource s)),
            AclFilter_Operation := stringToOperation (ACL_Operation (ACL s)),
            AclFilter_PermissionType :=
              stringToAclPermissionType (ACL_PermissionType (ACL s))\<rparr>,
         Some (Errorf (''Unknown resource type: '' @ Resource_Type (Resource s))))
      else
        (\<lparr>AclFilter_Version = 0,
          AclFilter_ResourceType = stringToACLResouce (Resource_Type (Resource s)),
          AclFilter_ResourceName = Some (Resource_Name (Resource s)),
          AclFilter_ResourcePatternTypeFilter = 0,
          AclFilter_Principal = Some (ACL_Principal (ACL s)),
          AclFilter_Host = Some (ACL_Host (ACL s)),
          AclFilter_Operation = stringToOperation (ACL_Operation (ACL s)),
          AclFilter_PermissionType = stringToAclPermissionType (ACL_PermissionType (ACL s))\<rparr>,
         None))"
  unfolding AclCreation_def AclFilter_def Let_def operation_known permission_known
    resource_known pattern_known
  by (simp add: AclCreation_zero_def AclFilter_zero_def)

lemmas vocabulary_defs = operation_vocabulary_def permission_vocabulary_def
  resource_vocabulary_def pattern_vocabulary_def

lemmas translate_defs = stringToOperation_def stringToAclPermissionType_def
  stringToACLResouce_def stringToACLPrefix_def

text \<open>
  Claim C5 asks that \<open>AclCreation\<close> and \<open>AclFilter\<close> each translate every string field
  and fail at the first field outside its vocabulary. \<open>AclFilter\<close> does not: for the ACL
  of the example with the pattern-type filter \<open>prefix\<close>, which is outside the vocabulary,
  \<open>AclCreation\<close> fails with "Unknown pattern type filter" but \<open>AclFilter\<close> succeeds; and
  for the valid filter \<open>prefixed\<close>, \<open>AclCreation\<close> translates it but the filter that
  \<open>AclFilter\<close> returns has the pattern type zero.
\<close>

theorem AclFilter_skips_pattern_type:
  "Resource_PatternTypeFilter (Resource (sample_acl ''Write'' ''prefix''))
     \<notin> set pattern_vocabulary \<and>
   snd (AclCreation (sample_acl ''Write'' ''prefix''))
     = Some (Errorf (''Unknown pattern type filter: '' @ quote @ ''prefix'' @ quote)) \<and>
   snd (AclFilter (sample_acl ''Write'' ''prefix'')) = None \<and>
   AclFilter_ResourcePatternTypeFilter (fst (AclFilter (sample_acl ''Write'' ''prefix''))) = 0 \<and>
   Resource_PatternTypeFilter (Resource (sample_acl ''Write'' ''prefixed''))
     \<in> set pattern_vocabulary \<and>
   AclCreation (sample_acl ''Write'' ''prefixed'') =
     (\<lparr>AclCreation_Resource =
         \<lparr>ResourceType = AclResourceTopic, ResourceName = ''syslog-*'',
          ResoucePatternType = AclPatternPrefixed\<rparr>,
       AclCreation_Acl =
         \<lparr>Acl_Principal = ''User:Alice'', Acl_Host = ''*'', Acl_Operation = AclOperationWrite,
          Acl_PermissionType = AclPermissionAllow\<rparr>\<rparr>, None) \<and>
   AclFilter (sample_acl ''Write'' ''prefixed'') =
     (\<lparr>AclFilter_Version = 0, AclFilter_ResourceType = AclResourceTopic,
       AclFilter_ResourceName = Some ''syslog-*'', AclFilter_ResourcePatternTypeFilter = 0,
       AclFilter_Principal = Some ''User:Alice'', AclFilter_Host = Some ''*'',
       AclFilter_Operation = AclOperationWrite,
       AclFilter_PermissionType = AclPermissionAllow\<rparr>, None) \<and>
   AclPatternPrefixed \<noteq> 0"
  by (simp add: sample_acl_def acl_builders_validate_in_order vocabulary_defs translate_defs
        acl_consts)

section \<open>Properties of the broker search and of the ACL listing\<close>

lemma availableBroker_range_Open_errs:
  "\<forall>a \<in> set brokers. Open (NewBroker X a) kc \<noteq> None \<Longrightarrow>
   availableBroker_range X kc brokers opened = (None, opened @ brokers)"
  by (induction brokers arbitrary: opened) (auto simp: Let_def)

lemma availableBroker_range_Open_nil:
  "\<forall>a \<in> set pre. Open (NewBroker X a) kc \<noteq> None \<Longrightarrow> Open (NewBroker X b) kc = None \<Longrightarrow>
   availableBroker_range X kc (pre @ b # post) opened = (Some (NewBroker X b), opened @ pre @ [b])"
  by (induction pre arbitrary: opened) (auto simp: Let_def)

lemma availableBroker_range_None:
  "fst (availableBroker_range X kc brokers opened) = None \<Longrightarrow>
   \<forall>a \<in> set brokers. Open (NewBroker X a) kc \<noteq> None"
  by (induction brokers arbitrary: opened) (auto simp: Let_def split: if_splits)

text \<open>
  Claim C7 asks that \<open>availableBroker\<close> returns the first broker whose connection opens
  and tries the addresses in order until then. It does not: the only test is the result of
  \<open>Open\<close>, and whenever \<open>Open\<close> returns \<open>nil\<close> on the first address, as it does on any address
  under a valid configuration, the broker of the first address is returned and no other
  address is tried, whether or not the first address accepts a connection.
\<close>

theorem availableBroker_returns_first_address:
  assumes "BootstrapServers (config c) = Some (b # rest)"
    and "Open (NewBroker X b) (kafkaConfig c) = None"
  shows "availableBroker X c = (Inr (NewBroker X b), [b])"
  using assms availableBroker_range_Open_nil [of "[]" X "kafkaConfig c" b rest "[]"]
  by (simp add: availableBroker_def)

theorem availableBroker_returns_first_address_witness:
  "BootstrapServers (config sample_client) = Some (''bad:1'' # [''good:2'']) \<and>
   Open (NewBroker sample_externals ''bad:1'') (kafkaConfig sample_client) = None \<and>
   \<not> sample_reachable ''bad:1'' \<and> sample_reachable ''good:2'' \<and>
   availableBroker sample_externals sample_client = (Inr (sample_broker ''bad:1''), [''bad:1'']) \<and>
   DescribeAcls (sample_broker ''bad:1'') (hd allResources) = Inl sample_refused \<and>
   fst (ListACLs sample_externals sample_client) = ([], Some sample_refused) \<and>
   fst (ListACLs sample_externals (sample_client_at [''good:2'']))
     = (sample_acls AclResourceTopic @ sample_acls AclResourceGroup, None)"
proof -
  have a: "BootstrapServers (config sample_client) = Some (''bad:1'' # [''good:2''])"
    by (simp add: sample_client_def Config_zero_def)
  have b: "Open (NewBroker sample_externals ''bad:1'') (kafkaConfig sample_client) = None"
    by (simp add: sample_externals_def sample_broker_defs)
  have c: "\<not> sample_reachable ''bad:1''" "sample_reachable ''good:2''"
    by (simp_all add: sample_reachable_def)
  from availableBroker_returns_first_address [OF a b]
  have d: "availableBroker sample_externals sample_client
             = (Inr (sample_broker ''bad:1''), [''bad:1''])"
    by (simp add: sample_externals_def)
  have e: "DescribeAcls (sample_broker ''bad:1'') (hd allResources) = Inl sample_refused"
    by (simp add: sample_broker_defs)
  have f: "fst (ListACLs sample_externals sample_client) = ([], Some sample_refused)"
    using d by (simp add: ListACLs_def sample_client_def allResources_def sample_broker_defs)
  have g: "fst (ListACLs sample_externals (sample_client_at [''good:2'']))
             = (sample_acls AclResourceTopic @ sample_acls AclResourceGroup, None)"
    by (simp add: ListACLs_def availableBroker_def sample_client_at_def sample_client_def
          sample_externals_def allResources_def sample_broker_defs sample_acls_def acl_consts
          ErrNoError_def)
  from a b c d e f g show ?thesis by simp
qed

lemma foldl_append_each: "foldl (\<lambda>res a. res @ [a]) res xs = res @ xs"
  by (induction xs arbitrary: res) auto

lemma ListACLs_range_all_answered:
  "\<forall>r \<in> set reqs. answered broker r \<Longrightarrow>
   ListACLs_range X broker reqs res issued
     = ((res @ concat (map (entries broker) reqs), None), issued @ reqs)"
  by (induction reqs arbitrary: res issued)
     (auto simp: Let_def answered_def entries_def foldl_append_each split: sum.splits)

lemma ListACLs_range_first_failure:
  "\<forall>q \<in> set pre. answered broker q \<Longrightarrow> \<not> answered broker r \<Longrightarrow>
   fst (fst (ListACLs_range X broker (pre @ r # post) res issued)) = [] \<and>
   snd (fst (ListACLs_range X broker (pre @ r # post) res issued)) \<noteq> None \<and>
   snd (ListACLs_range X broker (pre @ r # post) res issued) = issued @ pre @ [r]"
  by (induction pre arbitrary: res issued)
     (auto simp: Let_def answered_def split: sum.splits)

lemma first_failure_split:
  "\<not> (\<forall>r \<in> set reqs. P r) \<Longrightarrow>
   \<exists>pre r post. reqs = pre @ r # post \<and> (\<forall>q \<in> set pre. P q) \<and> \<not> P r"
  using split_list_first_prop [of reqs "\<lambda>r. \<not> P r"] by auto

text \<open>
  Claim C6. With a broker available and the metadata refreshed, \<open>ListACLs\<close> has four
  requests, for the resource types Topic, Group, Cluster and TransactionalID in this
  order, each with "any" for pattern type, permission type and operation. When all four
  are answered it hands exactly these four to \<open>DescribeAcls\<close>, in this order, and returns
  the entries of the four responses concatenated in this order. When one is not answered
  (a transport error, or a response code other than "no error") the call fails, returns
  no entries, and has issued the requests up to the first that was not answered.
\<close>

theorem ListACLs_four_queries:
  assumes "fst (availableBroker X c) = Inr broker" and "RefreshMetadata (client c) = None"
  shows "map (\<lambda>r. AclFilter_ResourceType (DescribeAclsRequest_AclFilter r)) allResources
           = [AclResourceTopic, AclResourceGroup, AclResourceCluster,
              AclResourceTransactionalID] \<and>
         (\<forall>r \<in> set allResources.
            AclFilter_ResourcePatternTypeFilter (DescribeAclsRequest_AclFilter r) = AclPatternAny \<and>
            AclFilter_PermissionType (DescribeAclsRequest_AclFilter r) = AclPermissionAny \<and>
            AclFilter_Operation (DescribeAclsRequest_AclFilter r) = AclOperationAny) \<and>
         ((\<forall>r \<in> set allResources. answered broker r) \<longrightarrow>
            ListACLs X c = ((concat (map (entries broker) allResources), None), allResources)) \<and>
         (\<not> (\<forall>r \<in> set allResources. answered broker r) \<longrightarrow>
            fst (fst (ListACLs X c)) = [] \<and> snd (fst (ListACLs X c)) \<noteq> None \<and>
            (\<exists>pre r post. allResources = pre @ r # post \<and> (\<forall>q \<in> set pre. answered broker q) \<and>
               \<not> answered broker r \<and> snd (ListACLs X c) = pre @ [r]))"
proof (intro conjI impI)
  show "map (\<lambda>r. AclFilter_ResourceType (DescribeAclsRequest_AclFilter r)) allResources
          = [AclResourceTopic, AclResourceGroup, AclResourceCluster, AclResourceTransactionalID]"
    by (simp add: allResources_def)
  show "\<forall>r \<in> set allResources.
          AclFilter_ResourcePatternTypeFilter (DescribeAclsRequest_AclFilter r) = AclPatternAny \<and>
          AclFilter_PermissionType (DescribeAclsRequest_AclFilter r) = AclPermissionAny \<and>
          AclFilter_Operation (DescribeAclsRequest_AclFilter r) = AclOperationAny"
    by (simp add: allResources_def)
  have run: "ListACLs X c = ListACLs_range X broker allResources [] []"
    using assms by (simp add: ListACLs_def)
  {
    assume "\<forall>r \<in> set allResources. answered broker r"
    then show "ListACLs X c = ((concat (map (entries broker) allResources), None), allResources)"
      using ListACLs_range_all_answered [of allResources broker X "[]" "[]"] run by simp
  }
  assume "\<not> (\<forall>r \<in> set allResources. answered broker r)"
  then obtain pre r post where split: "allResources = pre @ r # post"
    "\<forall>q \<in> set pre. answered broker q" "\<not> answered broker r"
    using first_failure_split [of allResources "answered broker"] by blast
  from ListACLs_range_first_failure [OF split(2,3), of X post "[]" "[]"] run split(1)
  have res: "fst (fst (ListACLs X c)) = []" "snd (fst (ListACLs X c)) \<noteq> None"
    "snd (ListACLs X c) = pre @ [r]" by simp_all
  from res show "fst (fst (ListACLs X c)) = []" by simp
  from res show "snd (fst (ListACLs X c)) \<noteq> None" by simp
  from res split show "\<exists>pre r post. allResources = pre @ r # post \<and>
      (\<forall>q \<in> set pre. answered broker q) \<and> \<not> answered broker r \<and> snd (ListACLs X c) = pre @ [r]"
    by blast
qed

theorem ListACLs_four_queries_witness:
  "fst (availableBroker sample_externals (sample_client_at [''good:2'']))
     = Inr (sample_broker ''good:2'') \<and>
   RefreshMetadata (client (sample_client_at [''good:2''])) = None \<and>
   list_all (answered (sample_broker ''good:2'')) allResources \<and>
   ListACLs sample_externals (sample_client_at [''good:2''])
     = ((sample_acls AclResourceTopic @ sample_acls AclResourceGroup, None), allResources) \<and>
   fst (availableBroker sample_externals (sample_client_at [''strict:3'']))
     = Inr (sample_broker ''strict:3'') \<and>
   RefreshMetadata (client (sample_client_at [''strict:3''])) = None \<and>
   \<not> list_all (answered (sample_broker ''strict:3'')) allResources \<and>
   fst (ListACLs sample_externals (sample_client_at [''strict:3''])) \<noteq> ([], None) \<and>
   fst (fst (ListACLs sample_externals (sample_client_at [''strict:3'']))) = []"
proof -
  have a: "fst (availableBroker sample_externals (sample_client_at [''good:2'']))
             = Inr (sample_broker ''good:2'')"
    by (simp add: availableBroker_def sample_client_at_def sample_client_def
          sample_externals_def sample_broker_defs)
  have b: "RefreshMetadata (client (sample_client_at [''good:2''])) = None"
    by (simp add: sample_client_at_def sample_client_def)
  have c: "\<forall>r \<in> set allResources. answered (sample_broker ''good:2'') r"
    by (simp add: allResources_def answered_def sample_broker_defs)
  have d: "concat (map (entries (sample_broker ''good:2'')) allResources)
             = sample_acls AclResourceTopic @ sample_acls AclResourceGroup"
    by (simp add: allResources_def entries_def sample_broker_defs sample_acls_def acl_consts)
  have e: "fst (availableBroker sample_externals (sample_client_at [''strict:3'']))
             = Inr (sample_broker ''strict:3'')"
    by (simp add: availableBroker_def sample_client_at_def sample_client_def
          sample_externals_def sample_broker_defs)
  have f: "RefreshMetadata (client (sample_client_at [''strict:3''])) = None"
    by (simp add: sample_client_at_def sample_client_def)
  have g: "\<not> (\<forall>r \<in> set allResources. answered (sample_broker ''strict:3'') r)"
    by (simp add: allResources_def answered_def sample_broker_defs acl_consts ErrNoError_def)
  from ListACLs_four_queries [OF a b] c d
  have h: "ListACLs sample_externals (sample_client_at [''good:2''])
             = ((sample_acls AclResourceTopic @ sample_acls AclResourceGroup, None),
                allResources)"
    by simp
  from ListACLs_four_queries [OF e f] g
  have i: "fst (fst (ListACLs sample_externals (sample_client_at [''strict:3'']))) = []"
    "snd (fst (ListACLs sample_externals (sample_client_at [''strict:3'']))) \<noteq> None"
    by blast+
  from i(2) have j: "fst (ListACLs sample_externals (sample_client_at [''strict:3'']))
                       \<noteq> ([], None)"
    by (metis snd_conv)
  from a b c h e f g i(1) j show ?thesis by (simp add: list_all_iff)
qed

section \<open>Properties of the derived configuration\<close>

text \<open>
  Claim C8 asks that, with TLS enabled, no certificate object and a CA file path
  configured, the trusted roots are read from that file. They are not: for the
  configuration of the example (TLS enabled, a CA file path, nothing else), whatever the
  file system answers, the derived configuration has an empty pool of trusted roots and
  there is no error. \<open>caCertPool\<close> reads the file only when the path is empty.
\<close>

theorem caCertPool_skips_configured_file:
  "newKafkaConfig X
     (Config_zero\<lparr>TLSEnabled := True, CACertFile := ''../secrets/snakeoil-ca-1.crt''\<rparr>)
   = ((NewConfig X)
        \<lparr>Config_Version := V2_0_0_0, Config_ClientID := ''terraform-provider-kafka'',
         Net_TLS_Enable := True,
         Net_TLS_Config :=
           Some \<lparr>Certificates = [], RootCAs = Some [], InsecureSkipVerify = False\<rparr>\<rparr>,
      None)"
  by (simp add: newKafkaConfig_def newTLSConfig_def clientCert_def caCertPool_def
        SASLEnabled_def Config_zero_def NewCertPool_def)

text \<open>
  Claim C9 asks that the derived configuration carries the version that the unit test of
  the package asserts. For every connection configuration the version is \<open>V2_0_0_0\<close> and
  the client identifier is \<open>terraform-provider-kafka\<close>; the unit test asserts \<open>V1_0_0_0\<close>,
  so it fails.
\<close>

theorem newKafkaConfig_version_differs_from_test:
  "Config_Version (fst (newKafkaConfig X c)) = V2_0_0_0 \<and>
   Config_ClientID (fst (newKafkaConfig X c)) = ''terraform-provider-kafka'' \<and>
   snd (newKafkaConfig X Config_zero) = None \<and>
   V2_0_0_0 \<noteq> V1_0_0_0 \<and>
   \<not> Test_kafkaConfigVersion X"
  by (simp add: newKafkaConfig_def Test_kafkaConfigVersion_def SASLEnabled_def Config_zero_def
        V1_0_0_0_def V2_0_0_0_def Let_def split: prod.splits option.splits)

end
